theory Spec2Isabelle
  imports Main
begin

section \<open>Strings\<close>

text \<open>
  A \<^typ>\<open>char\<close> stands for a code point below 256. \<open>str.lower\<close> and the white space
  removed by \<open>str.strip\<close> are written out for these code points.
\<close>

definition lower_char :: "char \<Rightarrow> char" where
  "lower_char c =
     (let n = (of_char c :: nat)
      in if (65 \<le> n \<and> n \<le> 90) \<or> (192 \<le> n \<and> n \<le> 222 \<and> n \<noteq> 215)
         then char_of (n + 32) else c)"

definition lower :: "string \<Rightarrow> string" where
  "lower s = map lower_char s"

definition isspace :: "char \<Rightarrow> bool" where
  "isspace c =
     (let n = (of_char c :: nat)
      in (9 \<le> n \<and> n \<le> 13) \<or> (28 \<le> n \<and> n \<le> 32) \<or> n = 133 \<or> n = 160)"

definition strip :: "string \<Rightarrow> string" where
  "strip s = rev (dropWhile isspace (rev (dropWhile isspace s)))"

section \<open>Connection and event\<close>

datatype error = IndexError | KeyError | ReError

text \<open>The result of a regular expression search: the matched text and its groups.\<close>

datatype pymatch = Match string "string list"

text \<open>
  The \<open>text\<close> attribute of an event holds the parameter list after construction, the
  stripped argument string of a command, or the match object of a pattern.
\<close>

datatype text_val = TStr string | TParaml "string list" | TMatch pymatch

text \<open>Python's truth value of the \<open>text\<close> attribute, as \<open>not input.text\<close> reads it.\<close>

fun truthy :: "text_val \<Rightarrow> bool" where
  "truthy (TStr s) = (s \<noteq> [])"
| "truthy (TParaml l) = (l \<noteq> [])"
| "truthy (TMatch m) = True"

record conn =
  conn_nick :: string
  conn_server :: string
  conn_config :: "string \<rightharpoonup> string"

text \<open>
  The attributes of \<open>Input\<close>. \<open>trigger\<close> is \<open>None\<close> for Python's \<open>None\<close>;
  \<open>text_unstripped\<close> is \<open>None\<close> while the attribute has not been assigned; \<open>db\<close> tells
  whether a store session has been assigned to the attribute \<open>db\<close>. The attributes
  \<open>bot\<close> and \<open>input\<close> (the event itself) carry no data of their own.
\<close>

record input =
  conn :: conn
  raw :: string
  prefix :: string
  command :: string
  params :: string
  nick :: string
  user :: string
  host :: string
  mask :: string
  paraml :: "string list"
  msg :: string
  itext :: text_val
  server :: string
  lastparam :: string
  chan :: string
  trigger :: "string option"
  text_unstripped :: "string option"
  db :: bool

text \<open>The parsed line \<open>out\<close>, unpacked into the arguments of \<open>Input\<close>.\<close>

record parsed_line =
  out_raw :: string
  out_prefix :: string
  out_command :: string
  out_params :: string
  out_nick :: string
  out_user :: string
  out_host :: string
  out_mask :: string
  out_paramlist :: "string list"
  out_msg :: string

text \<open>
  \<open>Input.__init__\<close>: \<open>paramlist[-1]\<close> and \<open>paramlist[0]\<close> raise \<open>IndexError\<close> on an empty
  list.
\<close>

definition Input_init :: "conn \<Rightarrow> parsed_line \<Rightarrow> error + input" where
  "Input_init c out =
     (case out_paramlist out of
        [] \<Rightarrow> Inl IndexError
      | first # _ \<Rightarrow>
          Inr \<lparr> conn = c, raw = out_raw out, prefix = out_prefix out,
                command = out_command out, params = out_params out, nick = out_nick out,
                user = out_user out, host = out_host out, mask = out_mask out,
                paraml = out_paramlist out, msg = out_msg out,
                itext = TParaml (out_paramlist out), server = conn_server c,
                lastparam = last (out_paramlist out),
                chan = (if lower first = lower (conn_nick c) then out_nick out
                        else lower first),
                trigger = None, text_unstripped = None, db = False \<rparr>)"

section \<open>Values, plugins and effects\<close>

text \<open>
  The values that \<open>getattr(input, name)\<close> hands to a plugin: strings, string lists, the
  match object, \<open>None\<close>, and the objects (bot, connection, the event itself, the store
  session, a bound method of the event) which carry no data here.
\<close>

datatype val =
    VStr string | VStrs "string list" | VMatch pymatch | VNone
  | VBot | VConn | VInput | VDb | VMethod string

text \<open>
  What calling \<open>plugin.function(*parameters)\<close> does: it raises, or it returns \<open>None\<close>
  or an object \<open>out\<close>, of which only \<open>str(out)\<close> is kept.
\<close>

datatype handler_result = Raises | Returns "string option"

text \<open>
  Modelled from the spec: the plugin classes of \<open>core.pluginmanager\<close> are not part of the
  sources; the spec lists the routing kinds command, event, catch-all event and pattern.
  \<open>isinstance(plugin, CommandPlugin)\<close> is \<open>kind plugin = Command\<close>.
\<close>

datatype routing_kind = Command | Event | CatchAllEvent | Pattern

text \<open>
  A plugin. \<open>plugin_id\<close> is the identity of the object (the key of \<open>bot.threads\<close>),
  \<open>argspec\<close> is \<open>inspect.getargspec(plugin.function)[0]\<close>, \<open>func\<close> is \<open>plugin.function\<close>,
  \<open>args\<close> is the dictionary \<open>plugin.args\<close> with the truth value of each entry.
\<close>

record plugin =
  plugin_id :: nat
  kind :: routing_kind
  module_title :: string
  function_name :: string
  argspec :: "string list"
  func :: "val list \<Rightarrow> handler_result"
  doc :: "string option"
  args :: "string \<rightharpoonup> bool"

datatype sieve_result = SieveRaises | SieveReturns "input option"

text \<open>A sieve: \<open>sieve.function(bot, input, plugin)\<close> as a function of the event and the plugin.\<close>

record sieve =
  sieve_title :: string
  sieve_function_name :: string
  sieve_function :: "input \<Rightarrow> plugin \<Rightarrow> sieve_result"

datatype level = Debug | Info | Error | Exception

text \<open>The logger's messages, by their format string and its arguments.\<close>

datatype logmsg =
    InputDump input
  | OpenedDb string
  | ClosedDb string
  | InvalidArgument string string string
  | ErrorInPlugin string
  | ParametersUsed "val list"
  | ErrorRunningSieve string string string string

text \<open>
  What the engine does to the outside, in order: logger calls, \<open>conn.msg\<close>, \<open>conn.cmd\<close>,
  \<open>bot.db_session()\<close>, \<open>input.db.close()\<close>, the call of a plugin's function,
  \<open>_thread.start_new_thread(run, (bot, plugin, input))\<close> and the thread started by
  \<open>Handler.__init__\<close>.
\<close>

datatype effect =
    Log level logmsg
  | ConnMsg string string
  | ConnCmd string "string list"
  | DbSession
  | DbClose
  | Call nat "val list"
  | StartRun nat input
  | StartHandler nat

section \<open>Methods of the event\<close>

definition reply :: "input \<Rightarrow> string \<Rightarrow> string option \<Rightarrow> effect list" where
  "reply self message target =
     (let target = (case target of None \<Rightarrow> chan self | Some t \<Rightarrow> t)
      in if target = nick self then [ConnMsg target message]
         else [ConnMsg target (''('' @ nick self @ '') '' @ message)])"

definition notice :: "input \<Rightarrow> string \<Rightarrow> string option \<Rightarrow> effect list" where
  "notice self message target =
     (let target = (case target of None \<Rightarrow> nick self | Some t \<Rightarrow> t)
      in [ConnCmd ''NOTICE'' [target, message]])"

text \<open>
  The attributes that \<open>hasattr\<close> finds on an event: those assigned by \<open>__init__\<close>,
  \<open>text_unstripped\<close> and \<open>db\<close> once assigned, and the methods of the class. The
  attributes every Python object has (\<open>__class__\<close>, \<open>__dict__\<close>, ...) are left out.
\<close>

definition text_value :: "text_val \<Rightarrow> val" where
  "text_value t = (case t of TStr s \<Rightarrow> VStr s | TParaml l \<Rightarrow> VStrs l | TMatch m \<Rightarrow> VMatch m)"

definition attributes :: "input \<Rightarrow> (string \<times> val) list" where
  "attributes self =
     [(''bot'', VBot), (''conn'', VConn), (''raw'', VStr (raw self)),
      (''prefix'', VStr (prefix self)), (''command'', VStr (command self)),
      (''params'', VStr (params self)), (''nick'', VStr (nick self)),
      (''user'', VStr (user self)), (''host'', VStr (host self)),
      (''mask'', VStr (mask self)), (''paraml'', VStrs (paraml self)),
      (''msg'', VStr (msg self)), (''input'', VInput),
      (''text'', text_value (itext self)), (''server'', VStr (server self)),
      (''lastparam'', VStr (lastparam self)), (''chan'', VStr (chan self)),
      (''trigger'', (case trigger self of None \<Rightarrow> VNone | Some t \<Rightarrow> VStr t))]
     @ (case text_unstripped self of None \<Rightarrow> [] | Some u \<Rightarrow> [(''text_unstripped'', VStr u)])
     @ (if db self then [(''db'', VDb)] else [])
     @ map (\<lambda>m. (m, VMethod m))
         [''message'', ''reply'', ''action'', ''ctcp'', ''notice'', ''has_permission'']"

definition getattr :: "input \<Rightarrow> string \<Rightarrow> val option" where
  "getattr self name = map_of (attributes self) name"

definition hasattr :: "input \<Rightarrow> string \<Rightarrow> bool" where
  "hasattr self name = (getattr self name \<noteq> None)"

section \<open>run\<close>

definition input_name_aliases :: "string \<rightharpoonup> string" where
  "input_name_aliases =
     [''inp'' \<mapsto> ''text'', ''match'' \<mapsto> ''text'', ''paramlist'' \<mapsto> ''paraml'']"

definition resolve_alias :: "string \<Rightarrow> string" where
  "resolve_alias required_arg =
     (case input_name_aliases required_arg of Some a \<Rightarrow> a | None \<Rightarrow> required_arg)"

text \<open>
  The loop over \<open>required_args\<close>: the parameters collected so far, or the first name
  (after the alias table) that the event does not have.
\<close>

fun resolve :: "input \<Rightarrow> string list \<Rightarrow> val list \<Rightarrow> string + val list" where
  "resolve inp [] parameters = Inr parameters"
| "resolve inp (required_arg # rest) parameters =
     (let required_arg = resolve_alias required_arg
      in if hasattr inp required_arg
         then resolve inp rest (parameters @ [the (getattr inp required_arg)])
         else Inl required_arg)"

text \<open>\<open>run(bot, plugin, input)\<close>: the effects of one run, in order.\<close>

definition run :: "plugin \<Rightarrow> input \<Rightarrow> effect list" where
  "run plugin inp0 =
     (let required_args = argspec plugin;
          uses_db = (''db'' \<in> set required_args);
          opened = (if uses_db then [Log Debug (OpenedDb (module_title plugin)), DbSession]
                    else []);
          inp = (if uses_db then inp0\<lparr>db := True\<rparr> else inp0);
          closed = (if uses_db then [Log Debug (ClosedDb (module_title plugin)), DbClose]
                    else [])
      in [Log Debug (InputDump inp0)] @ opened @
         (case resolve inp required_args [] of
            Inl required_arg \<Rightarrow>
              [Log Error (InvalidArgument (module_title plugin) (function_name plugin)
                            required_arg)]
          | Inr parameters \<Rightarrow>
              Call (plugin_id plugin) parameters #
              (case func plugin parameters of
                 Raises \<Rightarrow>
                   [Log Exception (ErrorInPlugin (module_title plugin)),
                    Log Info (ParametersUsed parameters)] @ closed
               | Returns out \<Rightarrow>
                   closed @ (case out of None \<Rightarrow> [] | Some s \<Rightarrow> reply inp s None))))"

section \<open>Sieves\<close>

definition do_sieve :: "sieve \<Rightarrow> input \<Rightarrow> plugin \<Rightarrow> input option \<times> effect list" where
  "do_sieve sv inp plugin =
     (case sieve_function sv inp plugin of
        SieveReturns r \<Rightarrow> (r, [])
      | SieveRaises \<Rightarrow>
          (None, [Log Exception
                    (ErrorRunningSieve (sieve_title sv) (sieve_function_name sv)
                       (module_title plugin) (function_name plugin))]))"

text \<open>The loop over \<open>bot.plugin_manager.sieves\<close> at the head of \<open>dispatch\<close>.\<close>

fun sieve_loop :: "sieve list \<Rightarrow> input \<Rightarrow> plugin \<Rightarrow> input option \<times> effect list" where
  "sieve_loop [] inp plugin = (Some inp, [])"
| "sieve_loop (sv # rest) inp plugin =
     (case do_sieve sv inp plugin of
        (None, es) \<Rightarrow> (None, es)
      | (Some inp', es) \<Rightarrow>
          (case sieve_loop rest inp' plugin of (r, es') \<Rightarrow> (r, es @ es')))"

section \<open>Handler\<close>

text \<open>What the queue of a \<open>Handler\<close> holds: an event, or the sentinel put by \<open>stop\<close>.\<close>

datatype qitem = Item input | StopIteration

text \<open>
  Where the thread of \<open>Handler.start\<close> stands: at the inner loop that polls the queue,
  at the test after it, finished (the outer loop was left), or dead because
  \<open>plugin_input\<close> was read before it was ever assigned.
\<close>

datatype position = Polling | Checking | Finished | Unbound

record handler =
  h_plugin :: plugin
  input_queue :: "qitem list"
  plugin_input :: "qitem option"
  position :: position
  h_trace :: "effect list"

definition Handler_init :: "plugin \<Rightarrow> handler" where
  "Handler_init plugin =
     \<lparr> h_plugin = plugin, input_queue = [], plugin_input = None, position = Polling,
       h_trace = [] \<rparr>"

definition put :: "handler \<Rightarrow> qitem \<Rightarrow> handler" where
  "put h v = h\<lparr>input_queue := input_queue h @ [v]\<rparr>"

definition stop :: "handler \<Rightarrow> handler" where
  "stop h = put h StopIteration"

text \<open>
  One step of the thread of \<open>Handler.start\<close>, given the value of \<open>bot.running\<close> that the
  step reads. Polling: one round of the inner loop (\<open>get\<close> returns the head of the
  queue, or raises \<open>Empty\<close> after the timeout). Checking: the test after the inner loop
  and, if it passes, the call of \<open>run\<close>.
\<close>

definition start_step :: "bool \<Rightarrow> handler \<Rightarrow> handler" where
  "start_step running h =
     (case position h of
        Polling \<Rightarrow>
          (if running
           then (case input_queue h of
                   [] \<Rightarrow> h
                 | v # q \<Rightarrow> h\<lparr>input_queue := q, plugin_input := Some v, position := Checking\<rparr>)
           else h\<lparr>position := Checking\<rparr>)
      | Checking \<Rightarrow>
          (if \<not> running then h\<lparr>position := Finished\<rparr>
           else (case plugin_input h of
                   None \<Rightarrow> h\<lparr>position := Unbound\<rparr>
                 | Some StopIteration \<Rightarrow> h\<lparr>position := Finished\<rparr>
                 | Some (Item inp) \<Rightarrow>
                     h\<lparr>h_trace := h_trace h @ run (h_plugin h) inp, position := Polling\<rparr>))
      | Finished \<Rightarrow> h
      | Unbound \<Rightarrow> h)"

text \<open>
  A handler's thread among the others: an event or the sentinel is put on its queue, the
  bot is shut down (\<open>bot.running\<close> is cleared, and stays so), or the handler's thread
  takes a step.
\<close>

datatype action = Put qitem | Shutdown | Step

fun act :: "action \<Rightarrow> bool \<times> handler \<Rightarrow> bool \<times> handler" where
  "act (Put v) (running, h) = (running, put h v)"
| "act Shutdown (running, h) = (False, h)"
| "act Step (running, h) = (running, start_step running h)"

definition exec :: "action list \<Rightarrow> bool \<times> handler \<Rightarrow> bool \<times> handler" where
  "exec as s = foldl (\<lambda>s a. act a s) s as"






section \<open>dispatch\<close>

record plugin_manager =
  sieves :: "sieve list"
  events :: "string \<rightharpoonup> plugin list"
  catch_all_events :: "plugin list"
  commands :: "string \<rightharpoonup> plugin"
  regex_plugins :: "((string \<Rightarrow> pymatch option) \<times> plugin) list"

text \<open>
  The bot: its plugin manager, the dictionary \<open>bot.threads\<close> keyed by plugin, and what
  the dispatching thread has emitted so far.
\<close>

record bot =
  plugin_manager :: plugin_manager
  threads :: "nat \<rightharpoonup> handler"
  bot_trace :: "effect list"

definition emit :: "bot \<Rightarrow> effect list \<Rightarrow> bot" where
  "emit b es = b\<lparr>bot_trace := bot_trace b @ es\<rparr>"

definition get_flag :: "(string \<rightharpoonup> bool) \<Rightarrow> string \<Rightarrow> bool \<Rightarrow> bool" where
  "get_flag d k dflt = (case d k of None \<Rightarrow> dflt | Some v \<Rightarrow> v)"

text \<open>The last branch of \<open>dispatch\<close>: the choice between the plugin's own thread and a new one.\<close>

definition launch :: "bot \<Rightarrow> input \<Rightarrow> plugin \<Rightarrow> bot" where
  "launch b inp plugin =
     (if get_flag (args plugin) ''singlethread'' False
      then (case threads b (plugin_id plugin) of
              Some h \<Rightarrow> b\<lparr>threads := (threads b)(plugin_id plugin \<mapsto> put h (Item inp))\<rparr>
            | None \<Rightarrow>
                emit (b\<lparr>threads := (threads b)(plugin_id plugin \<mapsto> Handler_init plugin)\<rparr>)
                  [StartHandler (plugin_id plugin)])
      else emit b [StartRun (plugin_id plugin) inp])"

definition autohelp :: "plugin \<Rightarrow> input \<Rightarrow> bool" where
  "autohelp plugin inp =
     (kind plugin = Command \<and> get_flag (args plugin) ''autohelp'' True
      \<and> \<not> truthy (itext inp) \<and> doc plugin \<noteq> None)"

text \<open>
  \<open>dispatch(bot, input, plugin)\<close>: the exception that leaves it, if any, and the bot
  afterwards. \<open>input.conn.config["command_prefix"]\<close> raises \<open>KeyError\<close> when the key
  is absent.
\<close>

definition dispatch :: "bot \<Rightarrow> input \<Rightarrow> plugin \<Rightarrow> error option \<times> bot" where
  "dispatch b inp0 plugin =
     (case sieve_loop (sieves (plugin_manager b)) inp0 plugin of
        (None, es) \<Rightarrow> (None, emit b es)
      | (Some inp, es) \<Rightarrow>
          (if autohelp plugin inp
           then (case conn_config (conn inp) ''command_prefix'' of
                   None \<Rightarrow> (Some KeyError, emit b es)
                 | Some command_prefix \<Rightarrow>
                     (None, emit b (es @ notice inp (command_prefix @ the (doc plugin)) None)))
           else (None, launch (emit b es) inp plugin)))"

section \<open>main\<close>

text \<open>Statements in sequence: an exception of the first leaves the rest undone.\<close>

definition and_then ::
  "error option \<times> bot \<Rightarrow> (bot \<Rightarrow> error option \<times> bot) \<Rightarrow> error option \<times> bot" where
  "and_then r f = (case r of (Some e, b) \<Rightarrow> (Some e, b) | (None, b) \<Rightarrow> f b)"

text \<open>\<open>dispatch(bot, Input(bot, conn, *out), plugin)\<close> with the event changed by \<open>change\<close> first.\<close>

definition dispatch_fresh ::
  "bot \<Rightarrow> conn \<Rightarrow> parsed_line \<Rightarrow> (input \<Rightarrow> input) \<Rightarrow> plugin \<Rightarrow> error option \<times> bot" where
  "dispatch_fresh b c out change plugin =
     (case Input_init c out of
        Inl e \<Rightarrow> (Some e, b)
      | Inr inp \<Rightarrow> dispatch b (change inp) plugin)"

text \<open>The two loops over event plugins.\<close>

fun dispatch_events :: "bot \<Rightarrow> conn \<Rightarrow> parsed_line \<Rightarrow> plugin list \<Rightarrow> error option \<times> bot" where
  "dispatch_events b c out [] = (None, b)"
| "dispatch_events b c out (event_plugin # rest) =
     and_then (dispatch_fresh b c out (\<lambda>inp. inp) event_plugin)
       (\<lambda>b'. dispatch_events b' c out rest)"

text \<open>
  \<open>re.match(command_re, inp.lastparam)\<close> is a parameter of \<open>main\<close>: it raises
  (\<open>re.error\<close>, when the pattern built from the prefix and the nickname does not
  compile), finds no match, or gives \<open>group(1)\<close> and \<open>group(2)\<close>.
\<close>

datatype re_result = ReRaises | ReNoMatch | ReGroups string string

definition command_re :: "string \<Rightarrow> input \<Rightarrow> string" where
  "command_re command_prefix inp =
     (let bs = [CHR 0x5C];
          pre = (if chan inp = nick inp
                 then ''^(?:['' @ command_prefix @ '']?|''
                 else ''^(?:['' @ command_prefix @ '']|'')
      in pre @ conn_nick (conn inp)
         @ ''[,;:]+'' @ bs @ ''s+)('' @ bs @ ''w+)(?:$|'' @ bs @ ''s+)(.*)'')"

text \<open>The command branch of \<open>main\<close>.\<close>

definition dispatch_command ::
  "(string \<Rightarrow> string \<Rightarrow> re_result) \<Rightarrow> bot \<Rightarrow> conn \<Rightarrow> parsed_line \<Rightarrow> input \<Rightarrow> string
     \<Rightarrow> error option \<times> bot" where
  "dispatch_command re_match b c out inp command_prefix =
     (case re_match (command_re command_prefix inp) (lastparam inp) of
        ReRaises \<Rightarrow> (Some ReError, b)
      | ReNoMatch \<Rightarrow> (None, b)
      | ReGroups g1 g2 \<Rightarrow>
          (let cmd = lower g1
           in case commands (plugin_manager b) cmd of
                None \<Rightarrow> (None, b)
              | Some plugin \<Rightarrow>
                  dispatch_fresh b c out
                    (\<lambda>i. i\<lparr>trigger := Some cmd, text_unstripped := Some g2,
                            itext := TStr (strip g2)\<rparr>)
                    plugin))"

text \<open>The loop over \<open>bot.plugin_manager.regex_plugins\<close>; \<open>regex\<close> is \<open>regex.search\<close>.\<close>

fun dispatch_regexes ::
  "bot \<Rightarrow> conn \<Rightarrow> parsed_line \<Rightarrow> input \<Rightarrow> ((string \<Rightarrow> pymatch option) \<times> plugin) list
     \<Rightarrow> error option \<times> bot" where
  "dispatch_regexes b c out inp [] = (None, b)"
| "dispatch_regexes b c out inp ((regex, plugin) # rest) =
     (case regex (lastparam inp) of
        None \<Rightarrow> dispatch_regexes b c out inp rest
      | Some m \<Rightarrow>
          and_then (dispatch_fresh b c out (\<lambda>i. i\<lparr>itext := TMatch m\<rparr>) plugin)
            (\<lambda>b'. dispatch_regexes b' c out inp rest))"

definition main ::
  "(string \<Rightarrow> string \<Rightarrow> re_result) \<Rightarrow> bot \<Rightarrow> conn \<Rightarrow> parsed_line \<Rightarrow> error option \<times> bot" where
  "main re_match b c out =
     (case Input_init c out of
        Inl e \<Rightarrow> (Some e, b)
      | Inr inp \<Rightarrow>
          (let command_prefix =
                 (case conn_config c ''command_prefix'' of None \<Rightarrow> ''.'' | Some p \<Rightarrow> p)
           in and_then
                (case events (plugin_manager b) (command inp) of
                   None \<Rightarrow> (None, b)
                 | Some ps \<Rightarrow> dispatch_events b c out ps)
                (\<lambda>b. and_then (dispatch_events b c out (catch_all_events (plugin_manager b)))
                   (\<lambda>b. if command inp = ''PRIVMSG''
                        then and_then (dispatch_command re_match b c out inp command_prefix)
                               (\<lambda>b. dispatch_regexes b c out inp
                                       (regex_plugins (plugin_manager b)))
                        else (None, b)))))"

text \<open>
  \<open>main\<close> from the event plugins to the command branch, that is, up to the loop over
  the pattern plugins, for the event \<open>inp\<close> that \<open>main\<close> has built from the line.
\<close>

definition before_patterns ::
  "(string \<Rightarrow> string \<Rightarrow> re_result) \<Rightarrow> bot \<Rightarrow> conn \<Rightarrow> parsed_line \<Rightarrow> input
     \<Rightarrow> error option \<times> bot" where
  "before_patterns re_match b c out inp =
     (let command_prefix =
            (case conn_config c ''command_prefix'' of None \<Rightarrow> ''.'' | Some p \<Rightarrow> p)
      in and_then
           (case events (plugin_manager b) (command inp) of
              None \<Rightarrow> (None, b)
            | Some ps \<Rightarrow> dispatch_events b c out ps)
           (\<lambda>b. and_then (dispatch_events b c out (catch_all_events (plugin_manager b)))
              (\<lambda>b. if command inp = ''PRIVMSG''
                   then dispatch_command re_match b c out inp command_prefix
                   else (None, b))))"

text \<open>Calls of \<open>dispatch\<close> one after the other, as a loop makes them when none raises.\<close>

fun dispatch_all :: "bot \<Rightarrow> (input \<times> plugin) list \<Rightarrow> bot" where
  "dispatch_all b [] = b"
| "dispatch_all b ((inp, plugin) # rest) = dispatch_all (snd (dispatch b inp plugin)) rest"

text \<open>
  The dispatches that the pattern plugins are to receive: one for every registered pair
  whose search of the trailing text finds a match, in the order of registration, with
  the event built from the line and its \<open>text\<close> set to the match.
\<close>

definition matching_patterns ::
  "input \<Rightarrow> ((string \<Rightarrow> pymatch option) \<times> plugin) list \<Rightarrow> (input \<times> plugin) list" where
  "matching_patterns inp rps =
     [(inp\<lparr>itext := TMatch (the (regex (lastparam inp)))\<rparr>, plugin).
        (regex, plugin) \<leftarrow> rps, regex (lastparam inp) \<noteq> None]"

section \<open>Reading a trace\<close>

definition is_call :: "effect \<Rightarrow> bool" where
  "is_call e = (case e of Call _ _ \<Rightarrow> True | _ \<Rightarrow> False)"

definition is_send :: "effect \<Rightarrow> bool" where
  "is_send e = (case e of ConnMsg _ _ \<Rightarrow> True | ConnCmd _ _ \<Rightarrow> True | _ \<Rightarrow> False)"

section \<open>Example data\<close>

definition bot_conn :: conn where
  "bot_conn = \<lparr> conn_nick = ''bot'', conn_server = ''irc.example.net'',
                conn_config = [''command_prefix'' \<mapsto> ''.''] \<rparr>"

definition line_from_alice :: "string list \<Rightarrow> parsed_line" where
  "line_from_alice ps =
     \<lparr> out_raw = '':Alice!u@h PRIVMSG'', out_prefix = ''Alice!u@h'',
       out_command = ''PRIVMSG'', out_params = '''', out_nick = ''Alice'',
       out_user = ''u'', out_host = ''h'', out_mask = ''Alice!u@h'',
       out_paramlist = ps, out_msg = '''' \<rparr>"

text \<open>The event of \<open>Alice\<close> saying \<open>s\<close> in \<open>#chan\<close>.\<close>

definition alice_says :: "string \<Rightarrow> input" where
  "alice_says s =
     \<lparr> conn = bot_conn, raw = '':Alice!u@h PRIVMSG'', prefix = ''Alice!u@h'',
       command = ''PRIVMSG'', params = '''', nick = ''Alice'', user = ''u'', host = ''h'',
       mask = ''Alice!u@h'', paraml = [''#chan'', s], msg = '''',
       itext = TParaml [''#chan'', s], server = ''irc.example.net'', lastparam = s,
       chan = ''#chan'', trigger = None, text_unstripped = None, db = False \<rparr>"

definition example_plugin :: "nat \<Rightarrow> routing_kind \<Rightarrow> string list \<Rightarrow> plugin" where
  "example_plugin n k names =
     \<lparr> plugin_id = n, kind = k, module_title = ''example'', function_name = ''f'',
       argspec = names, func = (\<lambda>ps. Returns (Some ''done'')), doc = Some ''f <text>'',
       args = Map.empty \<rparr>"

definition empty_reply_plugin :: plugin where
  "empty_reply_plugin = (example_plugin 1 Command [])\<lparr>func := (\<lambda>ps. Returns (Some []))\<rparr>"

definition passing_sieve :: sieve where
  "passing_sieve =
     \<lparr> sieve_title = ''core_sieve'', sieve_function_name = ''pass'',
       sieve_function = (\<lambda>inp plugin. SieveReturns (Some inp)) \<rparr>"

definition raising_sieve :: sieve where
  "raising_sieve =
     \<lparr> sieve_title = ''core_sieve'', sieve_function_name = ''broken'',
       sieve_function = (\<lambda>inp plugin. SieveRaises) \<rparr>"

definition example_bot :: "sieve list \<Rightarrow> bot" where
  "example_bot svs =
     \<lparr> plugin_manager =
         \<lparr> sieves = svs, events = Map.empty, catch_all_events = [], commands = Map.empty,
           regex_plugins = [] \<rparr>,
       threads = Map.empty, bot_trace = [] \<rparr>"

definition ordered_plugin :: plugin where
  "ordered_plugin = (example_plugin 7 Event [''inp''])\<lparr>args := [''singlethread'' \<mapsto> True]\<rparr>"

definition find_hello :: "string \<Rightarrow> pymatch option" where
  "find_hello s = (if take 5 s = ''hello'' then Some (Match ''hello'' []) else None)"

definition find_any :: "string \<Rightarrow> pymatch option" where
  "find_any s = Some (Match [] [])"

definition find_nothing :: "string \<Rightarrow> pymatch option" where
  "find_nothing s = None"

definition example_patterns :: "((string \<Rightarrow> pymatch option) \<times> plugin) list" where
  "example_patterns =
     [(find_hello, example_plugin 1 Pattern [''match'']),
      (find_nothing, example_plugin 2 Pattern [''match'']),
      (find_any, example_plugin 3 Pattern [''match''])]"

definition conn_without_prefix :: conn where
  "conn_without_prefix = bot_conn\<lparr>conn_config := Map.empty\<rparr>"

definition match_f :: "string \<Rightarrow> string \<Rightarrow> re_result" where
  "match_f pattern s = (if s = ''.f'' then ReGroups ''f'' [] else ReNoMatch)"

definition pattern_bot :: bot where
  "pattern_bot =
     (example_bot [])
       \<lparr>plugin_manager := (plugin_manager (example_bot []))
          \<lparr>commands := [''f'' \<mapsto> example_plugin 4 Command [''inp'']],
           regex_plugins := example_patterns\<rparr>\<rparr>"

definition notice_from_alice :: "string list \<Rightarrow> parsed_line" where
  "notice_from_alice ps = (line_from_alice ps)\<lparr>out_command := ''NOTICE''\<rparr>"

section \<open>Event construction\<close>

lemma lower_examples:
  "lower ''Bot'' = ''bot''" "lower ''bot'' = ''bot''" "lower ''#Chan'' = ''#chan''"
  "lower ''#chan'' = ''#chan''"
  by code_simp+

text \<open>
  C7: an event built from a non-empty parameter list has as \<open>chan\<close> the sender's nick when
  the lowercased first parameter is the connection's own nick lowercased, and the
  lowercased first parameter otherwise.
\<close>

theorem chan_resolution:
  assumes "out_paramlist out \<noteq> []"
  shows "\<exists>inp. Input_init c out = Inr inp \<and>
           chan inp = (if lower (hd (out_paramlist out)) = lower (conn_nick c)
                       then out_nick out else lower (hd (out_paramlist out)))"
  using assms by (cases "out_paramlist out") (simp_all add: Input_init_def)

theorem chan_resolution_witness:
  "out_paramlist (line_from_alice [''Bot'', ''hello'']) \<noteq> []
   \<and> (\<exists>inp. Input_init bot_conn (line_from_alice [''Bot'', ''hello'']) = Inr inp
          \<and> chan inp = ''Alice'')
   \<and> (\<exists>inp. Input_init bot_conn (line_from_alice [''#Chan'', ''hello'']) = Inr inp
          \<and> chan inp = ''#chan'')"
proof -
  have h1: "out_paramlist (line_from_alice [''Bot'', ''hello'']) \<noteq> []"
    and h2: "out_paramlist (line_from_alice [''#Chan'', ''hello'']) \<noteq> []"
    by (simp_all add: line_from_alice_def)
  show ?thesis
    using h1 chan_resolution [OF h1, of bot_conn] chan_resolution [OF h2, of bot_conn]
    by (simp add: line_from_alice_def bot_conn_def lower_examples)
qed

text \<open>
  C10: for a parsed line with an empty parameter list, the construction of the event
  raises \<open>IndexError\<close>, and so does \<open>main\<close>, which leaves the bot as it was: nothing
  has been dispatched.
\<close>

theorem empty_paramlist_raises:
  assumes "out_paramlist out = []"
  shows "Input_init c out = Inl IndexError \<and> main re_match b c out = (Some IndexError, b)"
  using assms by (simp add: Input_init_def main_def)

theorem empty_paramlist_raises_witness:
  "out_paramlist (line_from_alice []) = []
   \<and> Input_init bot_conn (line_from_alice []) = Inl IndexError
   \<and> main (\<lambda>pattern s. ReNoMatch) (example_bot []) bot_conn (line_from_alice [])
       = (Some IndexError, example_bot [])"
proof -
  have h: "out_paramlist (line_from_alice []) = []"
    by (simp add: line_from_alice_def)
  show ?thesis
    using h empty_paramlist_raises [OF h] by simp
qed

section \<open>The sieve pipeline\<close>

lemma sieve_loop_passes_silently:
  "sieve_loop svs inp plugin = (Some inp', es) \<Longrightarrow> es = []"
proof (induction svs arbitrary: inp es)
  case Nil
  then show ?case by simp
next
  case (Cons sv svs)
  then show ?case
    by (auto simp: do_sieve_def split: sieve_result.splits option.splits prod.splits)
qed

lemma sieve_loop_append:
  "sieve_loop (pre @ post) inp plugin =
     (case sieve_loop pre inp plugin of
        (None, es) \<Rightarrow> (None, es)
      | (Some inp', es) \<Rightarrow> (case sieve_loop post inp' plugin of (r, es') \<Rightarrow> (r, es @ es')))"
  by (induction pre arbitrary: inp) (auto split: prod.splits option.splits)

text \<open>
  C3: when the sieves before \<open>sv\<close> pass the event on (as \<open>inp'\<close>) and \<open>sv\<close> raises or
  returns \<open>None\<close>, \<open>dispatch\<close> returns without an exception; the sieves after \<open>sv\<close> have
  no part in the result; \<open>bot.threads\<close> is unchanged and the trace gains no thread
  start and nothing sent on the connection, only the log line of a sieve that raised.
\<close>

theorem sieve_drop_stops_dispatch:
  assumes "sieves (plugin_manager b) = pre @ sv # post"
    and "fst (sieve_loop pre inp plugin) = Some inp'"
    and "sieve_function sv inp' plugin = SieveRaises
         \<or> sieve_function sv inp' plugin = SieveReturns None"
  shows "dispatch b inp plugin =
           (None, b\<lparr>bot_trace := bot_trace b @
              (if sieve_function sv inp' plugin = SieveRaises
               then [Log Exception
                       (ErrorRunningSieve (sieve_title sv) (sieve_function_name sv)
                          (module_title plugin) (function_name plugin))]
               else [])\<rparr>)"
proof -
  obtain es where pre: "sieve_loop pre inp plugin = (Some inp', es)"
    using assms(2) by (cases "sieve_loop pre inp plugin") simp
  then have es: "es = []"
    by (rule sieve_loop_passes_silently)
  have "sieve_loop (pre @ sv # post) inp plugin =
          (None, if sieve_function sv inp' plugin = SieveRaises
                 then [Log Exception
                         (ErrorRunningSieve (sieve_title sv) (sieve_function_name sv)
                            (module_title plugin) (function_name plugin))]
                 else [])"
    using assms(3) pre es by (auto simp: sieve_loop_append do_sieve_def)
  then show ?thesis
    using assms(1) by (simp add: dispatch_def emit_def)
qed

theorem sieve_drop_stops_dispatch_witness:
  "sieves (plugin_manager (example_bot [passing_sieve, raising_sieve, passing_sieve]))
     = [passing_sieve] @ raising_sieve # [passing_sieve]
   \<and> fst (sieve_loop [passing_sieve] (alice_says ''.f x'') (example_plugin 1 Command [''inp'']))
       = Some (alice_says ''.f x'')
   \<and> sieve_function raising_sieve (alice_says ''.f x'') (example_plugin 1 Command [''inp''])
       = SieveRaises
   \<and> dispatch (example_bot [passing_sieve, raising_sieve, passing_sieve])
        (alice_says ''.f x'') (example_plugin 1 Command [''inp''])
       = (None, (example_bot [passing_sieve, raising_sieve, passing_sieve])
            \<lparr>bot_trace :=
               [Log Exception (ErrorRunningSieve ''core_sieve'' ''broken'' ''example'' ''f'')]\<rparr>)"
proof -
  have h1: "sieves (plugin_manager (example_bot [passing_sieve, raising_sieve, passing_sieve]))
              = [passing_sieve] @ raising_sieve # [passing_sieve]"
    by (simp add: example_bot_def)
  have h2: "fst (sieve_loop [passing_sieve] (alice_says ''.f x'')
                   (example_plugin 1 Command [''inp''])) = Some (alice_says ''.f x'')"
    by (simp add: do_sieve_def passing_sieve_def)
  have h3: "sieve_function raising_sieve (alice_says ''.f x'')
              (example_plugin 1 Command [''inp'']) = SieveRaises"
    by (simp add: raising_sieve_def)
  show ?thesis
    using h1 h2 h3 sieve_drop_stops_dispatch [OF h1 h2 disjI1 [OF h3]]
    by (simp add: example_bot_def raising_sieve_def example_plugin_def)
qed


section \<open>run: resolving the declared names\<close>

lemma hasattr_iff: "hasattr self name \<longleftrightarrow> name \<in> fst ` set (attributes self)"
  by (simp add: hasattr_def getattr_def map_of_eq_None_iff)

lemma hasattr_db: "hasattr (inp\<lparr>db := True\<rparr>) name \<longleftrightarrow> hasattr inp name \<or> name = ''db''"
  unfolding hasattr_iff attributes_def
  by (auto split: option.splits)

lemma resolve_alias_db: "resolve_alias a = ''db'' \<Longrightarrow> a = ''db''"
  by (auto simp: resolve_alias_def input_name_aliases_def split: if_splits)

lemma resolve_fails:
  assumes "a \<in> set names" and "\<not> hasattr inp (resolve_alias a)"
  shows "\<exists>bad. resolve inp names ps = Inl bad \<and> bad \<in> resolve_alias ` set names
           \<and> \<not> hasattr inp bad"
  using assms
proof (induction names arbitrary: ps)
  case Nil
  then show ?case by simp
next
  case (Cons n names)
  show ?case
  proof (cases "hasattr inp (resolve_alias n)")
    case True
    with Cons.prems have "a \<in> set names" by auto
    from Cons.IH [OF this Cons.prems(2)] True show ?thesis
      by (auto simp: Let_def)
  next
    case False
    then show ?thesis by (auto simp: Let_def)
  qed
qed

text \<open>
  C6: when a declared name other than \<open>db\<close> is, after the alias table, not an attribute
  of the event, \<open>run\<close> logs the plugin's module and function with an unresolved name and
  returns: its trace is the debug lines, the opening of the store session if \<open>db\<close> is
  declared, and the error line; the plugin's function is not called.
\<close>

theorem unresolved_name_aborts_run:
  assumes "a \<in> set (argspec plugin)" and "a \<noteq> ''db''"
    and "\<not> hasattr inp (resolve_alias a)"
  shows "\<exists>bad. bad \<in> resolve_alias ` set (argspec plugin) \<and> \<not> hasattr inp bad
           \<and> run plugin inp =
               Log Debug (InputDump inp)
               # (if ''db'' \<in> set (argspec plugin)
                  then [Log Debug (OpenedDb (module_title plugin)), DbSession] else [])
               @ [Log Error (InvalidArgument (module_title plugin) (function_name plugin) bad)]
           \<and> filter is_call (run plugin inp) = []"
proof -
  let ?inp = "if ''db'' \<in> set (argspec plugin) then inp\<lparr>db := True\<rparr> else inp"
  have "\<not> hasattr ?inp (resolve_alias a)"
    using assms(2,3) resolve_alias_db [of a] by (auto simp: hasattr_db)
  from resolve_fails [OF assms(1) this, of "[]"]
  obtain bad where bad: "resolve ?inp (argspec plugin) [] = Inl bad"
    "bad \<in> resolve_alias ` set (argspec plugin)" "\<not> hasattr ?inp bad"
    by blast
  have "\<not> hasattr inp bad"
    using bad(3) by (auto simp: hasattr_db split: if_splits)
  moreover have "run plugin inp =
      Log Debug (InputDump inp)
      # (if ''db'' \<in> set (argspec plugin)
         then [Log Debug (OpenedDb (module_title plugin)), DbSession] else [])
      @ [Log Error (InvalidArgument (module_title plugin) (function_name plugin) bad)]"
    using bad(1) by (simp add: run_def Let_def)
  ultimately show ?thesis
    using bad(2) by (auto simp: is_call_def)
qed

lemma alice_attributes:
  "hasattr (alice_says s) ''text''" "\<not> hasattr (alice_says s) ''nosuch''"
  "getattr (alice_says s) ''text'' = Some (VStrs [''#chan'', s])"
  "hasattr (alice_says s\<lparr>db := True\<rparr>) ''db''" "\<not> hasattr (alice_says s\<lparr>db := True\<rparr>) ''nosuch''"
  "getattr (alice_says s\<lparr>db := True\<rparr>) ''db'' = Some VDb"
  by (simp_all add: hasattr_def getattr_def attributes_def alice_says_def text_value_def)

lemma alias_examples:
  "resolve_alias ''inp'' = ''text''" "resolve_alias ''nosuch'' = ''nosuch''"
  "resolve_alias ''db'' = ''db''"
  by (simp_all add: resolve_alias_def input_name_aliases_def)

theorem unresolved_name_aborts_run_witness:
  "''nosuch'' \<in> set (argspec (example_plugin 1 Command [''inp'', ''nosuch'']))
   \<and> ''nosuch'' \<noteq> ''db''
   \<and> \<not> hasattr (alice_says ''.f x'') (resolve_alias ''nosuch'')
   \<and> (\<exists>bad. run (example_plugin 1 Command [''inp'', ''nosuch'']) (alice_says ''.f x'') =
          [Log Debug (InputDump (alice_says ''.f x'')),
           Log Error (InvalidArgument ''example'' ''f'' bad)])"
proof -
  have h1: "''nosuch'' \<in> set (argspec (example_plugin 1 Command [''inp'', ''nosuch'']))"
    by (simp add: example_plugin_def)
  have h2: "''nosuch'' \<noteq> ''db''"
    by simp
  have h3: "\<not> hasattr (alice_says ''.f x'') (resolve_alias ''nosuch'')"
    by (simp add: alias_examples alice_attributes)
  show ?thesis
    using h1 h3 unresolved_name_aborts_run [OF h1 h2 h3]
    by (auto simp: example_plugin_def)
qed

text \<open>
  C2: a plugin that declares \<open>db\<close> and a name the event does not have. The session is
  opened, \<open>run\<close> returns from the loop over the names, before the \<open>try\<close> whose \<open>finally\<close>
  closes the session, and the trace ends without \<open>DbClose\<close>.
\<close>

theorem run_leaves_db_open:
  "run (example_plugin 1 Command [''db'', ''nosuch'']) (alice_says ''.f x'') =
     [Log Debug (InputDump (alice_says ''.f x'')), Log Debug (OpenedDb ''example''),
      DbSession, Log Error (InvalidArgument ''example'' ''f'' ''nosuch'')]"
  by (simp add: run_def example_plugin_def alias_examples alice_attributes)

text \<open>Once the plugin's function is called, the session is closed, whatever it does.\<close>

lemma run_closes_db_after_call:
  assumes "''db'' \<in> set (argspec plugin)" and "Call n parameters \<in> set (run plugin inp)"
  shows "filter (\<lambda>e. e = DbSession \<or> e = DbClose) (run plugin inp) = [DbSession, DbClose]"
  using assms
  by (auto simp: run_def reply_def Let_def split: sum.splits handler_result.splits option.splits)

section \<open>run: the reply\<close>

lemma called_parameters:
  assumes "Call n parameters \<in> set (run plugin inp)"
  shows "resolve (if ''db'' \<in> set (argspec plugin) then inp\<lparr>db := True\<rparr> else inp)
           (argspec plugin) [] = Inr parameters"
  using assms
  by (auto simp: run_def reply_def Let_def
           split: sum.splits handler_result.splits option.splits if_splits)

text \<open>
  C8, amended: when the plugin's function was called with \<open>parameters\<close> and returned
  \<open>out\<close>, \<open>run\<close> sends nothing if \<open>out\<close> is \<open>None\<close>, and otherwise one message (also for
  an empty string) to \<open>input.chan\<close>: \<open>str(out)\<close> itself when \<open>chan\<close> is the sender's nick,
  and \<open>(nick) str(out)\<close> when it is not.
\<close>

theorem reply_after_return:
  assumes "Call (plugin_id plugin) parameters \<in> set (run plugin inp)"
    and "func plugin parameters = Returns out"
  shows "filter is_send (run plugin inp) =
           (case out of
              None \<Rightarrow> []
            | Some s \<Rightarrow>
                [ConnMsg (chan inp)
                   (if chan inp = nick inp then s else ''('' @ nick inp @ '') '' @ s)])"
  using called_parameters [OF assms(1)] assms(2)
  by (auto simp: run_def reply_def Let_def is_send_def split: option.splits)

theorem reply_after_return_witness:
  "Call (plugin_id (example_plugin 1 Command [''inp''])) [VStrs [''#chan'', ''.f x'']]
     \<in> set (run (example_plugin 1 Command [''inp'']) (alice_says ''.f x''))
   \<and> func (example_plugin 1 Command [''inp'']) [VStrs [''#chan'', ''.f x'']]
       = Returns (Some ''done'')
   \<and> filter is_send (run (example_plugin 1 Command [''inp'']) (alice_says ''.f x''))
       = [ConnMsg ''#chan'' ''(Alice) done'']"
proof -
  have h1: "Call (plugin_id (example_plugin 1 Command [''inp''])) [VStrs [''#chan'', ''.f x'']]
              \<in> set (run (example_plugin 1 Command [''inp'']) (alice_says ''.f x''))"
    by (simp add: run_def Let_def example_plugin_def alias_examples alice_attributes)
  have h2: "func (example_plugin 1 Command [''inp'']) [VStrs [''#chan'', ''.f x'']]
              = Returns (Some ''done'')"
    by (simp add: example_plugin_def)
  show ?thesis
    using h1 h2 reply_after_return [OF h1 h2]
    by (simp add: alice_says_def)
qed

text \<open>
  A plugin that returns the empty string has returned without raising, and its empty
  result is sent all the same, as \<open>(Alice) \<close>: the test is \<open>out is not None\<close>.
\<close>

theorem empty_result_is_sent:
  "func empty_reply_plugin [] = Returns (Some [])
   \<and> run empty_reply_plugin (alice_says ''.f x'')
       = [Log Debug (InputDump (alice_says ''.f x'')), Call 1 [], ConnMsg ''#chan'' ''(Alice) '']"
  by (simp add: run_def Let_def empty_reply_plugin_def example_plugin_def reply_def
        alice_says_def)

section \<open>dispatch: autohelp\<close>






section \<open>dispatch: the plugin's own thread\<close>

text \<open>
  C1: the first event dispatched to a plugin with \<open>singlethread\<close> set. \<open>dispatch\<close> creates
  the \<open>Handler\<close> and stores it in \<open>bot.threads\<close>, but does not put the event on its queue:
  the queue of the new handler is empty, and after a second dispatch it holds the second
  event only.
\<close>

theorem first_ordered_event_is_lost:
  "get_flag (args ordered_plugin) ''singlethread'' False
   \<and> threads (example_bot []) (plugin_id ordered_plugin) = None
   \<and> dispatch (example_bot []) (alice_says ''one'') ordered_plugin
       = (None, example_bot []\<lparr>threads := [7 \<mapsto> Handler_init ordered_plugin],
                                bot_trace := [StartHandler 7]\<rparr>)
   \<and> input_queue (Handler_init ordered_plugin) = []
   \<and> dispatch_all (example_bot [])
        [(alice_says ''one'', ordered_plugin), (alice_says ''two'', ordered_plugin)]
       = example_bot []
           \<lparr>threads := [7 \<mapsto> (Handler_init ordered_plugin)
                               \<lparr>input_queue := [Item (alice_says ''two'')]\<rparr>],
            bot_trace := [StartHandler 7]\<rparr>"
  by (simp add: dispatch_def launch_def autohelp_def get_flag_def emit_def put_def
        ordered_plugin_def example_plugin_def example_bot_def Handler_init_def)


section \<open>main: the pattern plugins\<close>

lemma dispatch_returns:
  "kind plugin \<noteq> Command \<Longrightarrow> fst (dispatch b inp plugin) = None"
  by (simp add: dispatch_def autohelp_def split: prod.splits option.splits)

text \<open>The loop over pattern plugins that are not command plugins: no call of \<open>dispatch\<close> raises.\<close>

lemma pattern_loop_returns:
  assumes "Input_init c out = Inr inp"
    and "\<forall>(regex, plugin) \<in> set rps. kind plugin = Pattern"
  shows "dispatch_regexes b c out inp rps = (None, dispatch_all b (matching_patterns inp rps))"
  using assms(2)
proof (induction rps arbitrary: b)
  case Nil
  then show ?case by (simp add: matching_patterns_def)
next
  case (Cons rp rps)
  obtain regex plugin where rp: "rp = (regex, plugin)"
    by (cases rp)
  with Cons.prems have k: "kind plugin \<noteq> Command"
    and rest: "\<forall>(regex, plugin) \<in> set rps. kind plugin = Pattern"
    by auto
  show ?case
  proof (cases "regex (lastparam inp)")
    case None
    with Cons.IH [OF rest] rp show ?thesis by (simp add: matching_patterns_def)
  next
    case (Some m)
    have "fst (dispatch b (inp\<lparr>itext := TMatch m\<rparr>) plugin) = None"
      using k by (rule dispatch_returns)
    then obtain b' where d: "dispatch b (inp\<lparr>itext := TMatch m\<rparr>) plugin = (None, b')"
      by (cases "dispatch b (inp\<lparr>itext := TMatch m\<rparr>) plugin") simp
    from Cons.IH [OF rest, of b'] rp Some assms(1) d show ?thesis
      by (simp add: dispatch_fresh_def and_then_def matching_patterns_def)
  qed
qed

lemma alice_event: "Input_init bot_conn (line_from_alice [''#chan'', s]) = Inr (alice_says s)"
  by (simp add: Input_init_def line_from_alice_def alice_says_def bot_conn_def lower_examples)

lemma and_then_None:
  "and_then r f = (None, b') \<longleftrightarrow> (\<exists>b1. r = (None, b1) \<and> f b1 = (None, b'))"
  by (cases r) (auto simp: and_then_def split: option.splits)

lemma fst_and_then_None:
  "fst (and_then r f) = None \<longleftrightarrow> fst r = None \<and> fst (f (snd r)) = None"
  by (cases r) (auto simp: and_then_def split: option.splits)

lemma and_then_returned: "fst r = None \<Longrightarrow> and_then r f = f (snd r)"
  by (cases r) (auto simp: and_then_def)

lemma pm_dispatch: "plugin_manager (snd (dispatch b inp plugin)) = plugin_manager b"
  by (simp add: dispatch_def emit_def launch_def split: prod.splits option.splits)

lemma pm_dispatch_fresh:
  "plugin_manager (snd (dispatch_fresh b c out change plugin)) = plugin_manager b"
  by (simp add: dispatch_fresh_def pm_dispatch split: sum.splits)

lemma pm_and_then:
  assumes "plugin_manager (snd r) = pm" and "\<And>b. plugin_manager b = pm \<Longrightarrow> plugin_manager (snd (f b)) = pm"
  shows "plugin_manager (snd (and_then r f)) = pm"
  using assms by (cases r) (auto simp: and_then_def split: option.splits)

lemma pm_dispatch_events:
  "plugin_manager (snd (dispatch_events b c out ps)) = plugin_manager b"
proof (induction ps arbitrary: b)
  case Nil
  then show ?case by simp
next
  case (Cons p ps)
  show ?case
    unfolding dispatch_events.simps
    by (rule pm_and_then) (simp_all add: pm_dispatch_fresh Cons.IH)
qed

lemma pm_dispatch_command:
  "plugin_manager (snd (dispatch_command re_match b c out inp cp)) = plugin_manager b"
  by (simp add: dispatch_command_def Let_def pm_dispatch_fresh
           split: re_result.splits option.splits)

lemma pm_before_patterns:
  "plugin_manager (snd (before_patterns re_match b c out inp)) = plugin_manager b"
  unfolding before_patterns_def Let_def
  by (intro pm_and_then) (simp_all add: pm_dispatch_events pm_dispatch_command split: option.splits)

lemma main_split:
  assumes "Input_init c out = Inr inp"
  shows "main re_match b c out =
           and_then (before_patterns re_match b c out inp)
             (\<lambda>b. if command inp = ''PRIVMSG''
                  then dispatch_regexes b c out inp (regex_plugins (plugin_manager b))
                  else (None, b))"
proof -
  have assoc: "and_then (and_then r f) g = and_then r (\<lambda>b. and_then (f b) g)" for r f g
    by (cases r) (auto simp: and_then_def split: option.splits)
  have unit: "and_then (None, b) g = g b" for b g
    by (simp add: and_then_def)
  show ?thesis
    using assms
    by (simp add: main_def before_patterns_def Let_def assoc unit if_distrib [of "\<lambda>r. and_then r _"]
             cong: if_cong)
qed

lemma dispatch_regexes_returned:
  assumes "Input_init c out = Inr inp"
    and "dispatch_regexes b c out inp rps = (None, b')"
  shows "b' = dispatch_all b (matching_patterns inp rps)"
  using assms(2)
proof (induction rps arbitrary: b)
  case Nil
  then show ?case by (simp add: matching_patterns_def)
next
  case (Cons rp rps)
  obtain regex plugin where rp: "rp = (regex, plugin)"
    by (cases rp)
  show ?case
  proof (cases "regex (lastparam inp)")
    case None
    with Cons rp show ?thesis by (simp add: matching_patterns_def)
  next
    case (Some m)
    with Cons.prems rp assms(1) obtain b1 where
      d: "dispatch b (inp\<lparr>itext := TMatch m\<rparr>) plugin = (None, b1)"
      and r: "dispatch_regexes b1 c out inp rps = (None, b')"
      by (auto simp: and_then_None dispatch_fresh_def)
    from Cons.IH [OF r] d rp Some show ?thesis
      by (simp add: matching_patterns_def)
  qed
qed

text \<open>
  C9, amended: for a \<open>PRIVMSG\<close> line from which the event \<open>inp\<close> is built. When \<open>main\<close>
  returns without raising, it has called \<open>dispatch\<close>, after what it does before the loop,
  once for every registered pattern plugin whose \<open>regex.search(inp.lastparam)\<close> finds a
  match, in the order of registration, each time with the event built from the line and
  its \<open>text\<close> set to that match. And \<open>main\<close> does return without raising when the event,
  catch-all and command dispatches before the loop do and the registered pattern plugins
  are of kind \<open>Pattern\<close>.
\<close>

theorem main_dispatches_matching_patterns:
  assumes "Input_init c out = Inr inp" and "out_command out = ''PRIVMSG''"
  shows "(fst (main re_match b c out) = None \<longrightarrow>
            main re_match b c out =
              (None, dispatch_all (snd (before_patterns re_match b c out inp))
                       (matching_patterns inp (regex_plugins (plugin_manager b)))))
       \<and> (fst (before_patterns re_match b c out inp) = None
            \<and> (\<forall>(regex, plugin) \<in> set (regex_plugins (plugin_manager b)). kind plugin = Pattern)
          \<longrightarrow> fst (main re_match b c out) = None)"
proof -
  let ?before = "before_patterns re_match b c out inp"
  let ?rps = "regex_plugins (plugin_manager b)"
  have privmsg: "command inp = ''PRIVMSG''"
    using assms by (auto simp: Input_init_def split: list.splits)
  have m: "main re_match b c out =
             and_then ?before (\<lambda>b1. dispatch_regexes b1 c out inp (regex_plugins (plugin_manager b1)))"
    using main_split [OF assms(1)] privmsg by simp
  have loop: "main re_match b c out = dispatch_regexes (snd ?before) c out inp ?rps"
    if "fst ?before = None"
    using that m by (simp add: and_then_returned pm_before_patterns)
  have A: "main re_match b c out = (None, dispatch_all (snd ?before) (matching_patterns inp ?rps))"
    if ret: "fst (main re_match b c out) = None"
  proof -
    from ret m have b: "fst ?before = None"
      by (simp add: fst_and_then_None)
    with ret loop obtain b' where r: "dispatch_regexes (snd ?before) c out inp ?rps = (None, b')"
      by (cases "dispatch_regexes (snd ?before) c out inp ?rps") simp
    from dispatch_regexes_returned [OF assms(1) r] r loop [OF b] show ?thesis
      by simp
  qed
  have B: "fst (main re_match b c out) = None"
    if "fst ?before = None" and "\<forall>(regex, plugin) \<in> set ?rps. kind plugin = Pattern"
    using loop [OF that(1)] pattern_loop_returns [OF assms(1) that(2)] by simp
  from A B show ?thesis by blast
qed

lemma lower_f: "lower ''f'' = ''f''"
  by code_simp

lemma strip_empty: "strip [] = []"
  by (simp add: strip_def)

theorem main_dispatches_matching_patterns_witness:
  "Input_init bot_conn (line_from_alice [''#chan'', ''hello world''])
     = Inr (alice_says ''hello world'')
   \<and> out_command (line_from_alice [''#chan'', ''hello world'']) = ''PRIVMSG''
   \<and> before_patterns match_f pattern_bot bot_conn (line_from_alice [''#chan'', ''hello world''])
        (alice_says ''hello world'') = (None, pattern_bot)
   \<and> map (\<lambda>rp. kind (snd rp)) (regex_plugins (plugin_manager pattern_bot))
       = [Pattern, Pattern, Pattern]
   \<and> main match_f pattern_bot bot_conn (line_from_alice [''#chan'', ''hello world''])
       = (None, pattern_bot
            \<lparr>bot_trace :=
               [StartRun 1 (alice_says ''hello world''\<lparr>itext := TMatch (Match ''hello'' [])\<rparr>),
                StartRun 3 (alice_says ''hello world''\<lparr>itext := TMatch (Match [] [])\<rparr>)]\<rparr>)"
proof -
  have h1: "Input_init bot_conn (line_from_alice [''#chan'', ''hello world''])
              = Inr (alice_says ''hello world'')"
    by (rule alice_event)
  have h2: "out_command (line_from_alice [''#chan'', ''hello world'']) = ''PRIVMSG''"
    by (simp add: line_from_alice_def)
  have l: "lastparam (alice_says ''hello world'') = ''hello world''"
    "command (alice_says ''hello world'') = ''PRIVMSG''"
    by (simp_all add: alice_says_def)
  have pm: "regex_plugins (plugin_manager pattern_bot) = example_patterns"
    "events (plugin_manager pattern_bot) = Map.empty"
    "catch_all_events (plugin_manager pattern_bot) = []"
    "sieves (plugin_manager pattern_bot) = []"
    by (simp_all add: pattern_bot_def example_bot_def)
  have before: "before_patterns match_f pattern_bot bot_conn
                  (line_from_alice [''#chan'', ''hello world'']) (alice_says ''hello world'')
                  = (None, pattern_bot)"
    by (simp add: before_patterns_def dispatch_command_def match_f_def and_then_def l pm)
  have kinds: "map (\<lambda>rp. kind (snd rp)) (regex_plugins (plugin_manager pattern_bot))
                 = [Pattern, Pattern, Pattern]"
    by (simp add: pm example_patterns_def example_plugin_def)
  then have all: "\<forall>(regex, plugin) \<in> set (regex_plugins (plugin_manager pattern_bot)).
                    kind plugin = Pattern"
    by (simp add: pm example_patterns_def example_plugin_def)
  have matching: "matching_patterns (alice_says ''hello world'') example_patterns =
      [(alice_says ''hello world''\<lparr>itext := TMatch (Match ''hello'' [])\<rparr>,
        example_plugin 1 Pattern [''match'']),
       (alice_says ''hello world''\<lparr>itext := TMatch (Match [] [])\<rparr>,
        example_plugin 3 Pattern [''match''])]"
    by (simp add: matching_patterns_def example_patterns_def l find_hello_def find_nothing_def
          find_any_def)
  have run_all: "dispatch_all pattern_bot
      [(alice_says ''hello world''\<lparr>itext := TMatch (Match ''hello'' [])\<rparr>,
        example_plugin 1 Pattern [''match'']),
       (alice_says ''hello world''\<lparr>itext := TMatch (Match [] [])\<rparr>,
        example_plugin 3 Pattern [''match''])]
      = pattern_bot
          \<lparr>bot_trace :=
             [StartRun 1 (alice_says ''hello world''\<lparr>itext := TMatch (Match ''hello'' [])\<rparr>),
              StartRun 3 (alice_says ''hello world''\<lparr>itext := TMatch (Match [] [])\<rparr>)]\<rparr>"
    by (simp add: dispatch_def autohelp_def launch_def get_flag_def emit_def example_plugin_def
          pattern_bot_def example_bot_def)
  note inst = main_dispatches_matching_patterns [OF h1 h2, of match_f pattern_bot]
  from inst before all
  have "fst (main match_f pattern_bot bot_conn (line_from_alice [''#chan'', ''hello world'']))
          = None"
    by simp
  with inst
  have "main match_f pattern_bot bot_conn (line_from_alice [''#chan'', ''hello world''])
          = (None, dispatch_all
                     (snd (before_patterns match_f pattern_bot bot_conn
                             (line_from_alice [''#chan'', ''hello world''])
                             (alice_says ''hello world'')))
                     (matching_patterns (alice_says ''hello world'')
                        (regex_plugins (plugin_manager pattern_bot))))"
    by blast
  then have "main match_f pattern_bot bot_conn (line_from_alice [''#chan'', ''hello world''])
          = (None, pattern_bot
               \<lparr>bot_trace :=
                  [StartRun 1 (alice_says ''hello world''\<lparr>itext := TMatch (Match ''hello'' [])\<rparr>),
                   StartRun 3 (alice_says ''hello world''\<lparr>itext := TMatch (Match [] [])\<rparr>)]\<rparr>)"
    by (simp only: before pm(1) matching run_all snd_conv)
  with h1 h2 before kinds show ?thesis
    by (simp only: simp_thms)
qed

text \<open>
  Two lines on which a registered pattern matches the trailing text and its plugin is
  not dispatched. The configuration has no command prefix and the line is the command
  \<open>.f\<close> with no text: the autohelp lookup raises \<open>KeyError\<close> in the command branch and \<open>main\<close>
  never reaches the loop. The line is a \<open>NOTICE\<close>: the loop is for \<open>PRIVMSG\<close> only.
\<close>

theorem matching_pattern_not_dispatched:
  "find_any ''.f'' = Some (Match [] [])
   \<and> main match_f pattern_bot conn_without_prefix (line_from_alice [''#chan'', ''.f''])
       = (Some KeyError, pattern_bot)
   \<and> find_hello ''hello world'' = Some (Match ''hello'' [])
   \<and> main match_f pattern_bot bot_conn (notice_from_alice [''#chan'', ''hello world''])
       = (None, pattern_bot)"
  by (simp add: main_def Input_init_def line_from_alice_def notice_from_alice_def
        conn_without_prefix_def bot_conn_def lower_examples lower_f strip_empty Let_def
        dispatch_command_def dispatch_fresh_def dispatch_def autohelp_def get_flag_def
        emit_def and_then_def match_f_def find_any_def find_hello_def
        pattern_bot_def example_bot_def example_plugin_def)

section \<open>The handler's thread\<close>








lemma exec_Cons: "exec (a # as) s = exec as (act a s)"
  by (simp add: exec_def)













end
